theory Spec2Isabelle
  imports Main "HOL-Library.Word"
begin

section \<open>Chain parameters of ghost-core (src/chainparams.h)\<close>

text \<open>
  A shallow embedding of \<^verbatim>\<open>src/chainparams.h\<close>: the data of the header, the members
  that have a body in it (\<^verbatim>\<open>CCheckpointData::GetHeight\<close>, the regtest-only mutators, the
  accessors of the anon-output blacklist), and, marked as such, the treasury-fund registry
  and the selection of the active parameter set, which the header only declares.
\<close>

subsection \<open>How a call ends\<close>

text \<open>
  A C++ call either returns, or stops the process in a failed \<^verbatim>\<open>assert\<close>, or throws, or
  does something the language leaves undefined (here: dereferencing a past-the-end
  iterator). Each is a value of the model. Assertions are taken as compiled in. The one
  exception the header names is \<^verbatim>\<open>std::runtime_error\<close>.
\<close>

datatype exception = runtime_error

datatype 'a outcome =
    Returned 'a
  | AssertionFailure
  | Threw exception
  | UndefinedBehaviour

subsection \<open>Scalar types\<close>

text \<open>
  \<^verbatim>\<open>uint256\<close>, \<^verbatim>\<open>uint64_t\<close>, \<^verbatim>\<open>uint32_t\<close>, \<^verbatim>\<open>int64_t\<close> values that the header only stores
  and copies are words of their width. A C++ \<^verbatim>\<open>int\<close> that is compared (the key of
  \<^verbatim>\<open>MapCheckpoints\<close>) is the integer it denotes: the header never does arithmetic on it, so
  no wrap-around can arise, and \<^verbatim>\<open>std::less<int>\<close> is the order of the integers.
\<close>

type_synonym uint256 = "256 word"
type_synonym uint64 = "64 word"
type_synonym uint32 = "32 word"
type_synonym int64 = "64 word"
type_synonym c_int = int

subsection \<open>\<^verbatim>\<open>std::map\<close> as its in-order sequence\<close>

text \<open>
  \<^verbatim>\<open>typedef std::map<int, uint256> MapCheckpoints;\<close>
  A \<^verbatim>\<open>std::map\<close> is modelled by the sequence of its entries in iteration order, that is,
  strictly ascending in the key. \<open>map_insert\<close> is \<^verbatim>\<open>std::map::insert\<close> (an entry whose key
  is present already is not inserted), and \<open>std_map_of\<close> is the construction from an
  initializer list, which inserts the entries one after the other.
\<close>

type_synonym 'v std_map = "(c_int \<times> 'v) list"

type_synonym MapCheckpoints = "uint256 std_map"

definition map_ok :: "'v std_map \<Rightarrow> bool" where
  "map_ok m = sorted_wrt (<) (map fst m)"

fun map_insert :: "c_int \<times> 'v \<Rightarrow> 'v std_map \<Rightarrow> 'v std_map" where
  "map_insert e [] = [e]"
| "map_insert e (e' # m) =
     (if fst e < fst e' then e # e' # m
      else if fst e = fst e' then e' # m
      else e' # map_insert e m)"

definition std_map_of :: "(c_int \<times> 'v) list \<Rightarrow> 'v std_map" where
  "std_map_of es = foldl (\<lambda>m e. map_insert e m) [] es"

text \<open>
  \<^verbatim>\<open>rbegin()\<close> is a reverse iterator at the entry with the greatest key, or the
  past-the-end iterator \<^verbatim>\<open>rend()\<close> when the map is empty. An iterator is modelled by the
  entry it points at, \<open>None\<close> for \<^verbatim>\<open>rend()\<close>.
\<close>

definition rbegin :: "'v std_map \<Rightarrow> (c_int \<times> 'v) option" where
  "rbegin m = (if m = [] then None else Some (last m))"

subsection \<open>\<^verbatim>\<open>CCheckpointData\<close>\<close>

record CCheckpointData =
  mapCheckpoints :: MapCheckpoints

text \<open>
  \<^verbatim>\<open>
  int GetHeight() const {
      const auto& final_checkpoint = mapCheckpoints.rbegin();
      return final_checkpoint->first /* height */;
  }
  \<close>
  There is no test for emptiness between \<^verbatim>\<open>rbegin()\<close> and the dereference, so on an
  empty map the dereference of \<^verbatim>\<open>rend()\<close> is reached.
\<close>

definition GetHeight :: "CCheckpointData \<Rightarrow> c_int outcome" where
  "GetHeight cd =
     (let final_checkpoint = rbegin (mapCheckpoints cd)
      in case final_checkpoint of
           None \<Rightarrow> UndefinedBehaviour
         | Some entry \<Rightarrow> Returned (fst entry))"

subsection \<open>The records of the header\<close>

text \<open>
  \<^verbatim>\<open>struct SeedSpec6 { uint8_t addr[16]; uint16_t port; };\<close>
\<close>

record SeedSpec6 =
  addr :: "8 word list"
  port :: "16 word"

text \<open>
  \<^verbatim>\<open>struct ChainTxData { int64_t nTime; int64_t nTxCount; double dTxRate; };\<close>
  The \<^verbatim>\<open>double\<close> is carried as its 64-bit pattern; nothing here computes with it.
\<close>

record ChainTxData =
  nTime :: int64
  nTxCount :: int64
  dTxRate :: "64 word"

text \<open>
  \<^verbatim>\<open>
  class TreasuryFundSettings {
      std::string sTreasuryFundAddresses;
      int nMinTreasuryStakePercent; // [0, 100]
      int nTreasuryOutputPeriod; // dev fund output is created every n blocks
  };
  \<close>
\<close>

record TreasuryFundSettings =
  sTreasuryFundAddresses :: string
  nMinTreasuryStakePercent :: c_int
  nTreasuryOutputPeriod :: c_int

text \<open>
  The data members of \<^verbatim>\<open>class CChainParams\<close>, in the order of the header.
  \<^verbatim>\<open>Consensus::Params\<close> and \<^verbatim>\<open>CBlock\<close> are declared in other headers and are only
  carried: they are the type parameters \<open>'consensus\<close> and \<open>'block\<close>.
  \<^verbatim>\<open>CAmount\<close> is \<^verbatim>\<open>int64_t\<close>. The \<^verbatim>\<open>int64_t\<close> effective times of
  \<^verbatim>\<open>vTreasuryFundSettings\<close> are the integers they denote (they are compared, never
  added). \<^verbatim>\<open>std::array<int, 47> nBlockPerc\<close> is a list. \<^verbatim>\<open>std::set<std::uint64_t>\<close> is
  a set of 64-bit words.
\<close>

record ('consensus, 'block) CChainParams =
  consensus :: 'consensus
  pchMessageStart :: "8 word list"
  nDefaultPort :: c_int
  nBIP44IDLegacy :: c_int
  nBIP44IDCurrent :: c_int
  nModifierInterval :: uint32
  nStakeMinConfirmations :: uint32
  nTargetSpacing :: uint32
  nTargetTimespan :: uint32
  nBlockReward :: int64
  nBlockRewardIncrease :: int64
  nStakeTimestampMask :: uint32
  nCoinYearReward :: int64
  nBlockPerc :: "c_int list"
  nLastImportHeight :: uint32
  anonRestricted :: bool
  anonRecoveryAddress :: string
  anonMaxOutputSize :: uint32
  vTreasuryFundSettings :: "(int \<times> TreasuryFundSettings) list"
  nPruneAfterHeight :: uint64
  m_assumed_blockchain_size :: uint64
  m_assumed_chain_state_size :: uint64
  vSeeds :: "string list"
  base58Prefixes :: "8 word list list"
  bech32Prefixes :: "8 word list list"
  bech32_hrp :: string
  strNetworkID :: string
  genesis :: 'block
  vFixedSeeds :: "SeedSpec6 list"
  fDefaultConsistencyChecks :: bool
  fRequireStandard :: bool
  m_is_test_chain :: bool
  m_is_mockable_chain :: bool
  checkpointData :: CCheckpointData
  chainTxData :: ChainTxData
  blacklistedAnonTxs :: "uint64 set"

subsection \<open>The regtest-only mutators\<close>

text \<open>
  \<^verbatim>\<open>
  void SetCoinYearReward(int64_t nCoinYearReward_)
  {
      assert(strNetworkID == "regtest");
      nCoinYearReward = nCoinYearReward_;
  }
  \<close>
  A member function that writes takes the object and returns how the call ended together
  with the object as the call left it.
\<close>

definition SetCoinYearReward ::
  "int64 \<Rightarrow> ('c, 'b) CChainParams \<Rightarrow> unit outcome \<times> ('c, 'b) CChainParams" where
  "SetCoinYearReward nCoinYearReward_in p =
     (if strNetworkID p = ''regtest''
      then (Returned (), p\<lparr>nCoinYearReward := nCoinYearReward_in\<rparr>)
      else (AssertionFailure, p))"

text \<open>
  \<^verbatim>\<open>
  void SetBlockReward(int64_t nBlockReward_)
  {
      assert(strNetworkID == "regtest");
      nBlockReward = nBlockReward_;
  }
  \<close>
\<close>

definition SetBlockReward ::
  "int64 \<Rightarrow> ('c, 'b) CChainParams \<Rightarrow> unit outcome \<times> ('c, 'b) CChainParams" where
  "SetBlockReward nBlockReward_in p =
     (if strNetworkID p = ''regtest''
      then (Returned (), p\<lparr>nBlockReward := nBlockReward_in\<rparr>)
      else (AssertionFailure, p))"

text \<open>
  \<^verbatim>\<open>Consensus::Params& GetConsensus_nc() { assert(strNetworkID == "regtest"); return consensus; }\<close>
  The call hands out a reference to the member \<^verbatim>\<open>consensus\<close>; \<open>GetConsensus_nc\<close> is the
  call, and \<open>assign_through_GetConsensus_nc\<close> is a caller's
  \<^verbatim>\<open>params.GetConsensus_nc() = f(params.GetConsensus_nc())\<close>, the only way the handle
  changes the object.
\<close>

definition GetConsensus_nc ::
  "('c, 'b) CChainParams \<Rightarrow> 'c outcome \<times> ('c, 'b) CChainParams" where
  "GetConsensus_nc p =
     (if strNetworkID p = ''regtest''
      then (Returned (consensus p), p)
      else (AssertionFailure, p))"

definition assign_through_GetConsensus_nc ::
  "('c \<Rightarrow> 'c) \<Rightarrow> ('c, 'b) CChainParams \<Rightarrow> unit outcome \<times> ('c, 'b) CChainParams" where
  "assign_through_GetConsensus_nc f p =
     (case GetConsensus_nc p of
        (Returned c, p') \<Rightarrow> (Returned (), p'\<lparr>consensus := f c\<rparr>)
      | (AssertionFailure, p') \<Rightarrow> (AssertionFailure, p')
      | (Threw e, p') \<Rightarrow> (Threw e, p')
      | (UndefinedBehaviour, p') \<Rightarrow> (UndefinedBehaviour, p'))"

subsection \<open>The anon-output blacklist\<close>

text \<open>
  \<^verbatim>\<open>std::set::count\<close> is 1 for a member and 0 otherwise; the \<^verbatim>\<open>return\<close> of
  \<^verbatim>\<open>IsBlacklistedAnonOutput\<close> converts it to \<^verbatim>\<open>bool\<close>.
  \<^verbatim>\<open>
  std::set<std::uint64_t> GetBlacklistedAnonOutputs() { return blacklistedAnonTxs; }
  bool IsBlacklistedAnonOutput(std::uint64_t index) const { return blacklistedAnonTxs.count(index); }
  void SetBlacklistedAnonOutput(const std::set<std::uint64_t>& anonIndexes){ blacklistedAnonTxs = anonIndexes; }
  \<close>
\<close>

definition set_count :: "'a \<Rightarrow> 'a set \<Rightarrow> nat" where
  "set_count x s = (if x \<in> s then 1 else 0)"

definition GetBlacklistedAnonOutputs :: "('c, 'b) CChainParams \<Rightarrow> uint64 set" where
  "GetBlacklistedAnonOutputs p = blacklistedAnonTxs p"

definition IsBlacklistedAnonOutput :: "uint64 \<Rightarrow> ('c, 'b) CChainParams \<Rightarrow> bool" where
  "IsBlacklistedAnonOutput index p = (set_count index (blacklistedAnonTxs p) \<noteq> 0)"

definition SetBlacklistedAnonOutput ::
  "uint64 set \<Rightarrow> ('c, 'b) CChainParams \<Rightarrow> ('c, 'b) CChainParams" where
  "SetBlacklistedAnonOutput anonIndexes p = p\<lparr>blacklistedAnonTxs := anonIndexes\<rparr>"

text \<open>
  \<^verbatim>\<open>GetBlacklistedAnonOutputs\<close> returns by value: the caller gets a set of its own. A
  caller that changes what it got, \<^verbatim>\<open>auto r = params.GetBlacklistedAnonOutputs(); r = f(r);\<close>,
  is the state transformer below on the pair of the caller's variable and the object.
\<close>

definition change_returned_set ::
  "(uint64 set \<Rightarrow> uint64 set) \<Rightarrow> ('c, 'b) CChainParams \<Rightarrow> uint64 set \<times> ('c, 'b) CChainParams" where
  "change_returned_set f p = (let r = GetBlacklistedAnonOutputs p in (f r, p))"

subsection \<open>Members that the header only declares\<close>

text \<open>
  \<^verbatim>\<open>PushTreasuryFundSettings\<close>, \<^verbatim>\<open>GetTreasuryFundSettings(int)\<close>, \<^verbatim>\<open>CreateChainParams\<close>,
  \<^verbatim>\<open>SelectParams\<close>, \<^verbatim>\<open>Params\<close> and \<^verbatim>\<open>pParams\<close> are declared in the header; their bodies
  are in a translation unit that is not among the sources. The definitions of this
  subsection follow the specification's description of them instead.
\<close>

text \<open>
  Modelled from the spec: the invariant of \<^verbatim>\<open>vTreasuryFundSettings\<close>, which the header
  does not state. Section 3: "sequence strictly ascending in \<^verbatim>\<open>effective_time\<close>; no two
  entries share a timestamp".
\<close>

definition strictly_ascending :: "(int \<times> 's) list \<Rightarrow> bool" where
  "strictly_ascending v = sorted_wrt (<) (map fst v)"

text \<open>
  Modelled from the spec: the body of \<^verbatim>\<open>CChainParams::PushTreasuryFundSettings\<close>
  (declared at chainparams.h:113) is missing. Section 4.2: "Insertion enforces strict time
  ordering; rejects (returns failure, does not throw) an insert whose \<^verbatim>\<open>effective_time\<close>
  is \<open>\<le>\<close> an already-registered timestamp". An accepted pair goes to the end of the
  sequence. The result is the returned \<^verbatim>\<open>bool\<close> and the object after the call.
\<close>

definition PushTreasuryFundSettings ::
  "int \<Rightarrow> TreasuryFundSettings \<Rightarrow> ('c, 'b) CChainParams \<Rightarrow> bool \<times> ('c, 'b) CChainParams" where
  "PushTreasuryFundSettings time_from settings p =
     (if list_ex (\<lambda>e. time_from \<le> fst e) (vTreasuryFundSettings p)
      then (False, p)
      else (True, p\<lparr>vTreasuryFundSettings :=
                      vTreasuryFundSettings p @ [(time_from, settings)]\<rparr>))"

text \<open>
  Modelled from the spec: the code that fills the registry is missing. A parameter set is
  built once (section 3, "constructed once at process start by a factory"); its registry
  is then the result of a run of \<^verbatim>\<open>PushTreasuryFundSettings\<close> calls, one per pair and in
  this order, whatever each call returns.
\<close>

fun push_all ::
  "(int \<times> TreasuryFundSettings) list \<Rightarrow> ('c, 'b) CChainParams \<Rightarrow> ('c, 'b) CChainParams" where
  "push_all [] p = p"
| "push_all (c # calls) p = push_all calls (snd (PushTreasuryFundSettings (fst c) (snd c) p))"

text \<open>
  Modelled from the spec: the search that \<^verbatim>\<open>GetTreasuryFundSettings\<close> makes is missing.
  Section 4.2: "the settings whose \<^verbatim>\<open>effective_time\<close> is the greatest value \<open>\<le>\<close> that
  timestamp; returns none if no entry qualifies". \<open>latest_entry_at\<close> goes through the
  sequence and keeps the pair with the greatest effective time that is not after the
  timestamp \<open>t\<close>; it does not rely on the order of the sequence.
\<close>

fun latest_entry_at :: "int \<Rightarrow> (int \<times> 's) list \<Rightarrow> (int \<times> 's) option" where
  "latest_entry_at t [] = None"
| "latest_entry_at t (e # es) =
     (case latest_entry_at t es of
        None \<Rightarrow> (if fst e \<le> t then Some e else None)
      | Some best \<Rightarrow> (if fst e \<le> t \<and> fst best < fst e then Some e else Some best))"

text \<open>
  Modelled from the spec: the body of \<^verbatim>\<open>CChainParams::GetTreasuryFundSettings(int nHeight)\<close>
  (declared at chainparams.h:112) is missing. Section 4.2: "Lookup converts \<^verbatim>\<open>height\<close> to a
  timestamp (via the chain's block-time model, supplied by the caller/consensus layer) and
  returns the settings" found as above. The block-time model is the parameter
  \<open>block_time\<close>. The returned pointer is an option, \<open>None\<close> for \<^verbatim>\<open>nullptr\<close>.
\<close>

definition GetTreasuryFundSettings ::
  "(c_int \<Rightarrow> int) \<Rightarrow> ('c, 'b) CChainParams \<Rightarrow> c_int \<Rightarrow> TreasuryFundSettings option" where
  "GetTreasuryFundSettings block_time p nHeight =
     map_option snd (latest_entry_at (block_time nHeight) (vTreasuryFundSettings p))"

text \<open>
  Modelled from the spec: the global that \<^verbatim>\<open>SelectParams\<close> sets and \<^verbatim>\<open>Params\<close> reads is
  missing. Section 4.6: "exactly one active parameter set pointer". The pointer is an
  option, \<open>None\<close> before any selection.
\<close>

type_synonym ('c, 'b) global_params = "('c, 'b) CChainParams option"

text \<open>
  Modelled from the spec: the body of \<^verbatim>\<open>CreateChainParams\<close> (declared at
  chainparams.h:257) is missing. Section 3: the instances are built "by a factory keyed
  on network name"; the header's comment: "throws a std::runtime_error if the chain is not
  supported". The supported networks and their parameter sets are the parameter
  \<open>networks\<close>; the \<^verbatim>\<open>ArgsManager\<close> argument plays no part in either sentence and is left
  out.
\<close>

definition CreateChainParams ::
  "(string \<rightharpoonup> ('c, 'b) CChainParams) \<Rightarrow> string \<Rightarrow> ('c, 'b) CChainParams outcome" where
  "CreateChainParams networks chain =
     (case networks chain of
        None \<Rightarrow> Threw runtime_error
      | Some p \<Rightarrow> Returned p)"

text \<open>
  Modelled from the spec: the body of \<^verbatim>\<open>SelectParams\<close> (declared at chainparams.h:270) is
  missing. Section 4.6: the active pointer is "set once via
  \<^verbatim>\<open>SelectParams(network_name)\<close> (fails with an unsupported-network error for unknown
  names)"; the header's comment: "Sets the params returned by Params() to those for the
  given chain name", "throws std::runtime_error when the chain is not supported". The
  result is how the call ended and the global after it.
\<close>

definition SelectParams ::
  "(string \<rightharpoonup> ('c, 'b) CChainParams) \<Rightarrow> string \<Rightarrow> ('c, 'b) global_params
     \<Rightarrow> unit outcome \<times> ('c, 'b) global_params" where
  "SelectParams networks chain globalChainParams =
     (case CreateChainParams networks chain of
        Returned p \<Rightarrow> (Returned (), Some p)
      | AssertionFailure \<Rightarrow> (AssertionFailure, globalChainParams)
      | Threw e \<Rightarrow> (Threw e, globalChainParams)
      | UndefinedBehaviour \<Rightarrow> (UndefinedBehaviour, globalChainParams))"

text \<open>
  Modelled from the spec: the body of \<^verbatim>\<open>Params\<close> (declared at chainparams.h:263) is
  missing. Section 4.6: "read via a global accessor that fails loudly (assert/panic) if
  queried before selection".
\<close>

definition Params :: "('c, 'b) global_params \<Rightarrow> ('c, 'b) CChainParams outcome" where
  "Params globalChainParams =
     (case globalChainParams of
        None \<Rightarrow> AssertionFailure
      | Some p \<Rightarrow> Returned p)"

text \<open>
  Modelled from the spec: the body of \<^verbatim>\<open>pParams\<close> (declared at chainparams.h:264) is
  missing. Section 4.6 has one active pointer; the header's comment on the two accessors:
  "Return the currently selected parameters". This one returns a pointer, taken to be
  the active pointer itself, null before any selection.
\<close>

definition pParams :: "('c, 'b) global_params \<Rightarrow> ('c, 'b) CChainParams option" where
  "pParams globalChainParams = globalChainParams"

subsection \<open>Values to evaluate the functions on\<close>

text \<open>A parameter set to evaluate the functions on: every member has a value.\<close>

definition sample_params :: "string \<Rightarrow> (unit, unit) CChainParams" where
  "sample_params network =
     \<lparr> consensus = (), pchMessageStart = [0xf2, 0xf3, 0xe1, 0xb4], nDefaultPort = 51728,
       nBIP44IDLegacy = 44, nBIP44IDCurrent = 531, nModifierInterval = 600,
       nStakeMinConfirmations = 225, nTargetSpacing = 120, nTargetTimespan = 1920,
       nBlockReward = 600000000, nBlockRewardIncrease = 2,
       nStakeTimestampMask = 15, nCoinYearReward = 2000000,
       nBlockPerc = replicate 47 100, nLastImportHeight = 0, anonRestricted = True,
       anonRecoveryAddress = [], anonMaxOutputSize = 2, vTreasuryFundSettings = [],
       nPruneAfterHeight = 100000, m_assumed_blockchain_size = 1,
       m_assumed_chain_state_size = 1, vSeeds = [], base58Prefixes = [],
       bech32Prefixes = [], bech32_hrp = ''gp'', strNetworkID = network, genesis = (),
       vFixedSeeds = [], fDefaultConsistencyChecks = False, fRequireStandard = True,
       m_is_test_chain = False, m_is_mockable_chain = False,
       checkpointData = \<lparr>mapCheckpoints = [(0, 0)]\<rparr>,
       chainTxData = \<lparr>nTime = 0, nTxCount = 0, dTxRate = 0\<rparr>,
       blacklistedAnonTxs = {} \<rparr>"

definition sample_settings :: "string \<Rightarrow> TreasuryFundSettings" where
  "sample_settings a =
     \<lparr>sTreasuryFundAddresses = a, nMinTreasuryStakePercent = 10, nTreasuryOutputPeriod = 60\<rparr>"

definition sample_networks :: "string \<rightharpoonup> (unit, unit) CChainParams" where
  "sample_networks =
     [''main'' \<mapsto> sample_params ''main'', ''test'' \<mapsto> sample_params ''test'',
      ''regtest'' \<mapsto> sample_params ''regtest'']"

section \<open>Properties\<close>

subsection \<open>The map model\<close>

lemma keys_map_insert: "fst ` set (map_insert e m) = insert (fst e) (fst ` set m)"
  by (induction m) auto

lemma set_map_insert: "set (map_insert e m) \<subseteq> insert e (set m)"
  by (induction m) auto

lemma map_ok_insert: "map_ok m \<Longrightarrow> map_ok (map_insert e m)"
proof (induction m)
  case Nil
  then show ?case by (simp add: map_ok_def)
next
  case (Cons e' m)
  have sub: "\<And>x. x \<in> set (map_insert e m) \<Longrightarrow> x = e \<or> x \<in> set m"
    using set_map_insert [of e m] by auto
  from Cons show ?case
    by (auto simp: map_ok_def dest!: sub)
qed

lemma foldl_insert_ok: "map_ok m \<Longrightarrow> map_ok (foldl (\<lambda>m e. map_insert e m) m es)"
  by (induction es arbitrary: m) (simp_all add: map_ok_insert)

lemma foldl_insert_keys:
  "fst ` set (foldl (\<lambda>m e. map_insert e m) m es) = fst ` set m \<union> fst ` set es"
  by (induction es arbitrary: m) (auto simp: keys_map_insert)

lemma map_ok_std_map_of: "map_ok (std_map_of es)"
  unfolding std_map_of_def by (rule foldl_insert_ok) (simp add: map_ok_def)

lemma keys_std_map_of: "fst ` set (std_map_of es) = fst ` set es"
  unfolding std_map_of_def by (simp add: foldl_insert_keys)

lemma std_map_of_empty_iff: "std_map_of es = [] \<longleftrightarrow> es = []"
proof -
  have "std_map_of es = [] \<longleftrightarrow> fst ` set (std_map_of es) = {}" by simp
  also have "\<dots> \<longleftrightarrow> es = []" by (simp add: keys_std_map_of)
  finally show ?thesis .
qed

lemma map_insert_greatest:
  "\<forall>x \<in> set m. fst x < fst e \<Longrightarrow> map_insert e m = m @ [e]"
  by (induction m) auto

text \<open>
  Every well-formed map is what inserting its own entries gives, so a statement about
  \<open>std_map_of es\<close> for all \<open>es\<close> is a statement about every map.
\<close>

lemma std_map_of_ordered: "map_ok m \<Longrightarrow> std_map_of m = m"
proof (induction m rule: rev_induct)
  case Nil
  then show ?case by (simp add: std_map_of_def)
next
  case (snoc e m)
  from snoc.prems have ok: "map_ok m" and below: "\<forall>x \<in> set m. fst x < fst e"
    by (auto simp: map_ok_def sorted_wrt_append)
  from snoc.IH [OF ok] have "std_map_of (m @ [e]) = map_insert e m"
    by (simp add: std_map_of_def)
  with below show ?case by (simp add: map_insert_greatest)
qed

lemma last_key_is_Max:
  assumes "map_ok m" and "m \<noteq> []"
  shows "fst (last m) = Max (fst ` set m)"
proof -
  from assms(2) obtain ms e where m: "m = ms @ [e]"
    by (cases m rule: rev_cases) auto
  from assms(1) have below: "\<forall>k \<in> fst ` set ms. k < fst e"
    by (auto simp: map_ok_def m sorted_wrt_append)
  have "Max (fst ` set m) = fst e"
  proof (rule Max_eqI)
    show "finite (fst ` set m)" by simp
    show "fst e \<in> fst ` set m" by (simp add: m)
    fix k assume "k \<in> fst ` set m"
    with below show "k \<le> fst e" by (auto simp: m)
  qed
  then show ?thesis by (simp add: m)
qed

lemma GetHeight_nonempty:
  assumes "map_ok m" and "m \<noteq> []"
  shows "GetHeight \<lparr>mapCheckpoints = m\<rparr> = Returned (Max (fst ` set m))"
  using assms by (simp add: GetHeight_def rbegin_def last_key_is_Max)

subsection \<open>\<^verbatim>\<open>CCheckpointData::GetHeight\<close>\<close>

text \<open>
  C9. For every non-empty checkpoint table, \<^verbatim>\<open>GetHeight()\<close> returns the greatest height
  key of \<^verbatim>\<open>mapCheckpoints\<close>, whatever the order in which the entries were inserted: a
  table built by inserting, in any order, any entries with the same heights gives the same
  result.
\<close>

theorem GetHeight_returns_greatest_key:
  assumes "map_ok (mapCheckpoints cd)" and "mapCheckpoints cd \<noteq> []"
  shows "GetHeight cd = Returned (Max (fst ` set (mapCheckpoints cd)))
       \<and> (\<forall>es. fst ` set es = fst ` set (mapCheckpoints cd) \<longrightarrow>
            GetHeight \<lparr>mapCheckpoints = std_map_of es\<rparr> = GetHeight cd)"
proof -
  have cd: "cd = \<lparr>mapCheckpoints = mapCheckpoints cd\<rparr>"
    by simp
  have first: "GetHeight cd = Returned (Max (fst ` set (mapCheckpoints cd)))"
    using GetHeight_nonempty [OF assms] cd by simp
  have "GetHeight \<lparr>mapCheckpoints = std_map_of es\<rparr> = GetHeight cd"
    if same: "fst ` set es = fst ` set (mapCheckpoints cd)" for es
  proof -
    from same assms(2) have "es \<noteq> []" by auto
    then have "std_map_of es \<noteq> []"
      by (simp add: std_map_of_empty_iff)
    from GetHeight_nonempty [OF map_ok_std_map_of this] show ?thesis
      by (simp add: keys_std_map_of same first)
  qed
  with first show ?thesis by blast
qed

text \<open>
  The table with the heights 100, 500 and 250, inserted in two different orders, gives 500.
\<close>

theorem GetHeight_returns_greatest_key_witness:
  "map_ok (std_map_of [(100, 1), (500, 2), (250, 3 :: uint256)])
   \<and> std_map_of [(100, 1), (500, 2), (250, 3 :: uint256)] \<noteq> []
   \<and> GetHeight \<lparr>mapCheckpoints = std_map_of [(100, 1), (500, 2), (250, 3)]\<rparr> = Returned 500
   \<and> GetHeight \<lparr>mapCheckpoints = std_map_of [(250, 3), (500, 2), (100, 1)]\<rparr> = Returned 500"
proof -
  let ?m = "std_map_of [(100, 1), (500, 2), (250, 3 :: uint256)]"
  let ?es = "[(250, 3), (500, 2), (100, 1)] :: (c_int \<times> uint256) list"
  have entries: "?m = [(100, 1), (250, 3), (500, 2)]"
    by (simp add: std_map_of_def)
  have ok: "map_ok (mapCheckpoints \<lparr>mapCheckpoints = ?m\<rparr>)"
    and ne: "mapCheckpoints \<lparr>mapCheckpoints = ?m\<rparr> \<noteq> []"
    by (simp_all add: entries map_ok_def)
  note inst = GetHeight_returns_greatest_key [OF ok ne]
  have same: "fst ` set ?es = fst ` set (mapCheckpoints \<lparr>mapCheckpoints = ?m\<rparr>)"
    by (auto simp: entries)
  from inst same have "GetHeight \<lparr>mapCheckpoints = std_map_of ?es\<rparr>
      = GetHeight \<lparr>mapCheckpoints = ?m\<rparr>" by blast
  moreover from inst have "GetHeight \<lparr>mapCheckpoints = ?m\<rparr> = Returned 500"
    by (simp add: entries)
  ultimately show ?thesis using ok ne by simp
qed

text \<open>
  C1, as the claim states it, fails: on the empty table \<^verbatim>\<open>GetHeight()\<close> does not stop in
  an assertion. Nothing stands between \<^verbatim>\<open>rbegin()\<close> and \<^verbatim>\<open>final_checkpoint->first\<close>, so
  the dereference of the past-the-end iterator is reached.
\<close>

theorem GetHeight_empty_counterexample:
  "GetHeight \<lparr>mapCheckpoints = []\<rparr> = UndefinedBehaviour
   \<and> GetHeight \<lparr>mapCheckpoints = []\<rparr> \<noteq> AssertionFailure"
  by (simp add: GetHeight_def rbegin_def)

text \<open>
  C1, amended. \<^verbatim>\<open>GetHeight()\<close> has no check for emptiness: it never ends in a failed
  assertion or an exception, and it reaches the undefined dereference of \<^verbatim>\<open>rend()\<close>
  exactly when the checkpoint table is empty. A non-empty table is a precondition that
  is left to the caller.
\<close>

theorem GetHeight_has_no_emptiness_check:
  "(GetHeight cd = UndefinedBehaviour \<longleftrightarrow> mapCheckpoints cd = [])
   \<and> GetHeight cd \<noteq> AssertionFailure
   \<and> (\<forall>e. GetHeight cd \<noteq> Threw e)"
  by (simp add: GetHeight_def rbegin_def)

subsection \<open>The regtest-only mutators\<close>

lemma mutators_on_regtest:
  assumes "strNetworkID p = ''regtest''"
  shows "SetCoinYearReward r p = (Returned (), p\<lparr>nCoinYearReward := r\<rparr>)"
    and "SetBlockReward b p = (Returned (), p\<lparr>nBlockReward := b\<rparr>)"
    and "GetConsensus_nc p = (Returned (consensus p), p)"
    and "assign_through_GetConsensus_nc f p = (Returned (), p\<lparr>consensus := f (consensus p)\<rparr>)"
  using assms
  by (simp_all add: SetCoinYearReward_def SetBlockReward_def GetConsensus_nc_def
      assign_through_GetConsensus_nc_def)

text \<open>
  C7. \<^verbatim>\<open>SetCoinYearReward\<close>, \<^verbatim>\<open>SetBlockReward\<close> and \<^verbatim>\<open>GetConsensus_nc\<close> assert that
  the network is \<^verbatim>\<open>"regtest"\<close> before anything else: on a parameter set of another
  network each call ends in the failed assertion and leaves the object as it was, and
  no write through the handle of \<^verbatim>\<open>GetConsensus_nc\<close> takes place.
\<close>

theorem regtest_mutators_assert_network:
  assumes "strNetworkID p \<noteq> ''regtest''"
  shows "SetCoinYearReward r p = (AssertionFailure, p)
       \<and> SetBlockReward b p = (AssertionFailure, p)
       \<and> GetConsensus_nc p = (AssertionFailure, p)
       \<and> assign_through_GetConsensus_nc f p = (AssertionFailure, p)"
  using assms
  by (simp add: SetCoinYearReward_def SetBlockReward_def GetConsensus_nc_def
      assign_through_GetConsensus_nc_def)

theorem regtest_mutators_assert_network_witness:
  "strNetworkID (sample_params ''main'') \<noteq> ''regtest''
   \<and> SetCoinYearReward 5 (sample_params ''main'') = (AssertionFailure, sample_params ''main'')
   \<and> SetBlockReward 7 (sample_params ''main'') = (AssertionFailure, sample_params ''main'')
   \<and> GetConsensus_nc (sample_params ''main'') = (AssertionFailure, sample_params ''main'')
   \<and> assign_through_GetConsensus_nc id (sample_params ''main'')
       = (AssertionFailure, sample_params ''main'')"
proof -
  have main: "strNetworkID (sample_params ''main'') \<noteq> ''regtest''"
    by (simp add: sample_params_def)
  from regtest_mutators_assert_network [OF main, of 5 7 id] main show ?thesis
    by simp
qed

subsection \<open>The anon-output blacklist\<close>

text \<open>
  C10. After \<^verbatim>\<open>SetBlacklistedAnonOutput(s)\<close>, \<^verbatim>\<open>IsBlacklistedAnonOutput(i)\<close> is true
  exactly for the \<open>i\<close> in \<open>s\<close>, and \<^verbatim>\<open>GetBlacklistedAnonOutputs()\<close> returns \<open>s\<close>. What it
  returns is the caller's own copy: changing it leaves the object, and so every later
  \<^verbatim>\<open>IsBlacklistedAnonOutput\<close>, as it was. \<^verbatim>\<open>SetBlacklistedAnonOutput\<close> changes no other
  member: putting the old set back gives the old object.
\<close>

theorem blacklist_accessors_roundtrip:
  "IsBlacklistedAnonOutput i (SetBlacklistedAnonOutput s p) = (i \<in> s)
   \<and> GetBlacklistedAnonOutputs (SetBlacklistedAnonOutput s p) = s
   \<and> snd (change_returned_set f (SetBlacklistedAnonOutput s p)) = SetBlacklistedAnonOutput s p
   \<and> IsBlacklistedAnonOutput i (snd (change_returned_set f (SetBlacklistedAnonOutput s p)))
       = (i \<in> s)
   \<and> (SetBlacklistedAnonOutput s p)\<lparr>blacklistedAnonTxs := blacklistedAnonTxs p\<rparr> = p"
  by (simp add: IsBlacklistedAnonOutput_def SetBlacklistedAnonOutput_def
      GetBlacklistedAnonOutputs_def change_returned_set_def set_count_def)

theorem blacklist_accessors_roundtrip_witness:
  "IsBlacklistedAnonOutput 4 (SetBlacklistedAnonOutput {1, 4, 9} (sample_params ''main''))
   \<and> \<not> IsBlacklistedAnonOutput 5 (SetBlacklistedAnonOutput {1, 4, 9} (sample_params ''main''))
   \<and> GetBlacklistedAnonOutputs (SetBlacklistedAnonOutput {1, 4, 9} (sample_params ''main''))
       = {1, 4, 9}
   \<and> IsBlacklistedAnonOutput 4
       (snd (change_returned_set (\<lambda>r. r - {4}) (SetBlacklistedAnonOutput {1, 4, 9} (sample_params ''main''))))"
  using blacklist_accessors_roundtrip [of 4 "{1, 4, 9}" "sample_params ''main''" "\<lambda>r. r - {4}"]
    blacklist_accessors_roundtrip [of 5 "{1, 4, 9}" "sample_params ''main''" "\<lambda>r. r - {4}"]
  by simp

subsection \<open>The treasury-fund registry\<close>

lemma Push_rejected:
  "\<exists>e \<in> set (vTreasuryFundSettings p). time_from \<le> fst e \<Longrightarrow>
   PushTreasuryFundSettings time_from settings p = (False, p)"
  by (simp add: PushTreasuryFundSettings_def list_ex_iff)

lemma Push_accepted:
  "\<forall>e \<in> set (vTreasuryFundSettings p). fst e < time_from \<Longrightarrow>
   PushTreasuryFundSettings time_from settings p =
     (True, p\<lparr>vTreasuryFundSettings := vTreasuryFundSettings p @ [(time_from, settings)]\<rparr>)"
  by (auto simp: PushTreasuryFundSettings_def list_ex_iff)

lemma Push_False_unchanged:
  "fst (PushTreasuryFundSettings time_from settings p) = False \<Longrightarrow>
   snd (PushTreasuryFundSettings time_from settings p) = p"
  by (simp add: PushTreasuryFundSettings_def split: if_splits)

lemma Push_keeps_ascending:
  assumes "strictly_ascending (vTreasuryFundSettings p)"
  shows "strictly_ascending (vTreasuryFundSettings (snd (PushTreasuryFundSettings time_from settings p)))"
  using assms
  by (auto simp: PushTreasuryFundSettings_def strictly_ascending_def list_ex_iff
      sorted_wrt_append)

lemma push_all_keeps_ascending:
  "strictly_ascending (vTreasuryFundSettings p) \<Longrightarrow>
   strictly_ascending (vTreasuryFundSettings (push_all calls p))"
  by (induction calls arbitrary: p) (simp_all add: Push_keeps_ascending)

lemma Push_rejects_iff_not_after_latest:
  assumes "strictly_ascending (vTreasuryFundSettings p)"
  shows "fst (PushTreasuryFundSettings time_from settings p) = False \<longleftrightarrow>
    vTreasuryFundSettings p \<noteq> [] \<and> time_from \<le> fst (last (vTreasuryFundSettings p))"
proof (cases "vTreasuryFundSettings p" rule: rev_cases)
  case Nil
  then show ?thesis by (simp add: PushTreasuryFundSettings_def)
next
  case (snoc es e)
  with assms have "\<forall>x \<in> set es. fst x < fst e"
    by (auto simp: strictly_ascending_def sorted_wrt_append)
  then have "(\<exists>x \<in> set (es @ [e]). time_from \<le> fst x) \<longleftrightarrow> time_from \<le> fst e"
    by (auto intro: order_trans less_imp_le)
  with snoc show ?thesis
    by (simp add: PushTreasuryFundSettings_def list_ex_iff)
qed

text \<open>
  C4. \<^verbatim>\<open>PushTreasuryFundSettings(time_from, settings)\<close> returns \<^verbatim>\<open>false\<close> whenever
  \<open>time_from\<close> is not after the effective time of a registered entry; whenever it returns
  \<^verbatim>\<open>false\<close> the object, and so \<^verbatim>\<open>vTreasuryFundSettings\<close>, is what it was; a call keeps
  a strictly ascending sequence strictly ascending; so a registry that starts empty is
  strictly ascending after any run of calls. The function has no outcome but its
  \<^verbatim>\<open>bool\<close>: it does not throw.
\<close>

theorem PushTreasuryFundSettings_rejects_and_orders:
  "((\<exists>e \<in> set (vTreasuryFundSettings p). time_from \<le> fst e) \<longrightarrow>
      PushTreasuryFundSettings time_from settings p = (False, p))
   \<and> (fst (PushTreasuryFundSettings time_from settings p) = False \<longrightarrow>
      snd (PushTreasuryFundSettings time_from settings p) = p)
   \<and> (strictly_ascending (vTreasuryFundSettings p) \<longrightarrow>
      strictly_ascending
        (vTreasuryFundSettings (snd (PushTreasuryFundSettings time_from settings p))))
   \<and> (vTreasuryFundSettings p = [] \<longrightarrow>
      strictly_ascending (vTreasuryFundSettings (push_all calls p)))"
proof (intro conjI impI)
  assume "\<exists>e \<in> set (vTreasuryFundSettings p). time_from \<le> fst e"
  then show "PushTreasuryFundSettings time_from settings p = (False, p)"
    by (rule Push_rejected)
next
  assume "fst (PushTreasuryFundSettings time_from settings p) = False"
  then show "snd (PushTreasuryFundSettings time_from settings p) = p"
    by (rule Push_False_unchanged)
next
  assume "strictly_ascending (vTreasuryFundSettings p)"
  then show "strictly_ascending
      (vTreasuryFundSettings (snd (PushTreasuryFundSettings time_from settings p)))"
    by (rule Push_keeps_ascending)
next
  assume "vTreasuryFundSettings p = []"
  then have "strictly_ascending (vTreasuryFundSettings p)"
    by (simp add: strictly_ascending_def)
  then show "strictly_ascending (vTreasuryFundSettings (push_all calls p))"
    by (rule push_all_keeps_ascending)
qed

lemma sample_registry_empty: "vTreasuryFundSettings (sample_params n) = []"
  by (simp add: sample_params_def)

lemma sample_push_all:
  "vTreasuryFundSettings
     (push_all [(100, sample_settings ''A''), (50, sample_settings ''B''),
                (200, sample_settings ''C''), (200, sample_settings ''D'')] (sample_params ''main''))
   = [(100, sample_settings ''A''), (200, sample_settings ''C'')]"
  by (simp add: PushTreasuryFundSettings_def sample_registry_empty)

theorem PushTreasuryFundSettings_rejects_and_orders_witness:
  "(\<exists>e \<in> set (vTreasuryFundSettings
        ((sample_params ''main'')\<lparr>vTreasuryFundSettings := [(100, sample_settings ''A'')]\<rparr>)).
        50 \<le> fst e)
   \<and> PushTreasuryFundSettings 50 (sample_settings ''B'')
        ((sample_params ''main'')\<lparr>vTreasuryFundSettings := [(100, sample_settings ''A'')]\<rparr>)
       = (False, (sample_params ''main'')\<lparr>vTreasuryFundSettings := [(100, sample_settings ''A'')]\<rparr>)
   \<and> PushTreasuryFundSettings 100 (sample_settings ''B'')
        ((sample_params ''main'')\<lparr>vTreasuryFundSettings := [(100, sample_settings ''A'')]\<rparr>)
       = (False, (sample_params ''main'')\<lparr>vTreasuryFundSettings := [(100, sample_settings ''A'')]\<rparr>)
   \<and> vTreasuryFundSettings (sample_params ''main'') = []
   \<and> strictly_ascending (vTreasuryFundSettings
        (push_all [(100, sample_settings ''A''), (50, sample_settings ''B''),
                   (200, sample_settings ''C''), (200, sample_settings ''D'')]
           (sample_params ''main'')))
   \<and> vTreasuryFundSettings
        (push_all [(100, sample_settings ''A''), (50, sample_settings ''B''),
                   (200, sample_settings ''C''), (200, sample_settings ''D'')]
           (sample_params ''main''))
       = [(100, sample_settings ''A''), (200, sample_settings ''C'')]"
proof -
  let ?A = "sample_settings ''A''" and ?B = "sample_settings ''B''"
  let ?p0 = "sample_params ''main''"
  let ?p1 = "?p0\<lparr>vTreasuryFundSettings := [(100, ?A)]\<rparr>"
  let ?calls = "[(100, ?A), (50, ?B), (200, sample_settings ''C''), (200, sample_settings ''D'')]"
  have early: "\<exists>e \<in> set (vTreasuryFundSettings ?p1). 50 \<le> fst e"
    and same: "\<exists>e \<in> set (vTreasuryFundSettings ?p1). 100 \<le> fst e"
    by simp_all
  have empty: "vTreasuryFundSettings ?p0 = []"
    by (rule sample_registry_empty)
  from PushTreasuryFundSettings_rejects_and_orders [of ?p1 50 ?B ?calls] early
  have r1: "PushTreasuryFundSettings 50 ?B ?p1 = (False, ?p1)" by blast
  from PushTreasuryFundSettings_rejects_and_orders [of ?p1 100 ?B ?calls] same
  have r2: "PushTreasuryFundSettings 100 ?B ?p1 = (False, ?p1)" by blast
  from PushTreasuryFundSettings_rejects_and_orders [of ?p0 0 ?A ?calls] empty
  have asc: "strictly_ascending (vTreasuryFundSettings (push_all ?calls ?p0))" by blast
  from early r1 r2 empty asc sample_push_all show ?thesis
    by (intro conjI)
qed

lemma latest_entry_at_None_iff:
  "latest_entry_at t es = None \<longleftrightarrow> (\<forall>e \<in> set es. t < fst e)"
  by (induction es) (auto split: option.splits)

lemma latest_entry_at_Some:
  "latest_entry_at t es = Some b \<Longrightarrow>
   b \<in> set es \<and> fst b \<le> t \<and> (\<forall>e \<in> set es. fst e \<le> t \<longrightarrow> fst e \<le> fst b)"
proof (induction es arbitrary: b)
  case Nil
  then show ?case by simp
next
  case (Cons e es)
  show ?case
  proof (cases "latest_entry_at t es")
    case None
    with Cons.prems have "fst e \<le> t" and "b = e"
      by (auto split: if_splits)
    moreover from None have "\<forall>x \<in> set es. t < fst x"
      by (simp add: latest_entry_at_None_iff)
    ultimately show ?thesis by fastforce
  next
    case (Some best)
    note IH = Cons.IH [OF Some]
    show ?thesis
    proof (cases "fst e \<le> t \<and> fst best < fst e")
      case True
      with Some Cons.prems have "b = e" by simp
      with True IH show ?thesis by fastforce
    next
      case False
      with Some Cons.prems have "b = best" by auto
      with False IH show ?thesis by fastforce
    qed
  qed
qed

lemma latest_entry_at_snoc_new:
  assumes "\<forall>e \<in> set es. fst e < t'" and "t' \<le> t"
  shows "latest_entry_at t (es @ [(t', s)]) = Some (t', s)"
proof -
  from assms(2) obtain b where b: "latest_entry_at t (es @ [(t', s)]) = Some b"
    by (cases "latest_entry_at t (es @ [(t', s)])") (auto simp: latest_entry_at_None_iff)
  from latest_entry_at_Some [OF b] assms
  have "b \<in> set (es @ [(t', s)])" and "t' \<le> fst b"
    by auto
  with assms(1) have "b = (t', s)" by auto
  with b show ?thesis by simp
qed

lemma latest_entry_at_snoc_later:
  "t < t' \<Longrightarrow> latest_entry_at t (es @ [(t', s)]) = latest_entry_at t es"
  by (induction es) (auto split: option.splits)

lemma latest_entry_at_last:
  assumes "strictly_ascending es" and "es \<noteq> []" and "fst (last es) \<le> t"
  shows "latest_entry_at t es = Some (last es)"
proof -
  from assms(2) obtain ms e where es: "es = ms @ [e]"
    by (cases es rule: rev_cases) auto
  from assms(1) have "\<forall>x \<in> set ms. fst x < fst e"
    by (auto simp: strictly_ascending_def es sorted_wrt_append)
  with assms(3) have "latest_entry_at t (ms @ [(fst e, snd e)]) = Some (fst e, snd e)"
    by (intro latest_entry_at_snoc_new) (simp_all add: es)
  then show ?thesis by (simp add: es)
qed

text \<open>
  C5. \<^verbatim>\<open>GetTreasuryFundSettings\<close> returns none exactly when every registered effective
  time is after the timestamp of the queried height, and otherwise the settings of a
  registered entry whose effective time is the greatest one not after that timestamp.
  After an accepted \<^verbatim>\<open>PushTreasuryFundSettings(time_from, settings)\<close>, a query at a
  timestamp equal to \<open>time_from\<close> returns \<open>settings\<close>, and a query at
  \<open>time_from - 1\<close> returns what it returned before the call: on a strictly ascending
  registry the entry that was last, or none when there was no entry.
\<close>

theorem GetTreasuryFundSettings_latest_not_after:
  "(GetTreasuryFundSettings block_time p nHeight = None \<longleftrightarrow>
      (\<forall>e \<in> set (vTreasuryFundSettings p). block_time nHeight < fst e))
   \<and> (\<forall>s. GetTreasuryFundSettings block_time p nHeight = Some s \<longrightarrow>
        (\<exists>e \<in> set (vTreasuryFundSettings p). snd e = s \<and> fst e \<le> block_time nHeight
           \<and> (\<forall>e' \<in> set (vTreasuryFundSettings p).
                 fst e' \<le> block_time nHeight \<longrightarrow> fst e' \<le> fst e)))
   \<and> (PushTreasuryFundSettings time_from settings p = (True, p') \<longrightarrow>
        (block_time nHeight = time_from \<longrightarrow>
           GetTreasuryFundSettings block_time p' nHeight = Some settings)
      \<and> (block_time nHeight = time_from - 1 \<longrightarrow>
           GetTreasuryFundSettings block_time p' nHeight
             = GetTreasuryFundSettings block_time p nHeight
         \<and> (strictly_ascending (vTreasuryFundSettings p) \<longrightarrow>
             GetTreasuryFundSettings block_time p' nHeight
               = (if vTreasuryFundSettings p = [] then None
                  else Some (snd (last (vTreasuryFundSettings p)))))))"
proof (intro conjI allI impI)
  show "GetTreasuryFundSettings block_time p nHeight = None \<longleftrightarrow>
      (\<forall>e \<in> set (vTreasuryFundSettings p). block_time nHeight < fst e)"
    by (simp add: GetTreasuryFundSettings_def latest_entry_at_None_iff)
next
  fix s
  assume "GetTreasuryFundSettings block_time p nHeight = Some s"
  then obtain b where b: "latest_entry_at (block_time nHeight) (vTreasuryFundSettings p) = Some b"
    and s: "snd b = s"
    by (auto simp: GetTreasuryFundSettings_def)
  from latest_entry_at_Some [OF b] s
  show "\<exists>e \<in> set (vTreasuryFundSettings p). snd e = s \<and> fst e \<le> block_time nHeight
           \<and> (\<forall>e' \<in> set (vTreasuryFundSettings p).
                 fst e' \<le> block_time nHeight \<longrightarrow> fst e' \<le> fst e)"
    by blast
next
  assume push: "PushTreasuryFundSettings time_from settings p = (True, p')"
  then have older: "\<forall>e \<in> set (vTreasuryFundSettings p). fst e < time_from"
    and v': "vTreasuryFundSettings p' = vTreasuryFundSettings p @ [(time_from, settings)]"
    by (auto simp: PushTreasuryFundSettings_def list_ex_iff split: if_splits)
  {
    assume "block_time nHeight = time_from"
    then show "GetTreasuryFundSettings block_time p' nHeight = Some settings"
      using latest_entry_at_snoc_new [OF older, of time_from settings]
      by (simp add: GetTreasuryFundSettings_def v')
  }
  {
    assume before: "block_time nHeight = time_from - 1"
    then show same: "GetTreasuryFundSettings block_time p' nHeight
        = GetTreasuryFundSettings block_time p nHeight"
      by (simp add: GetTreasuryFundSettings_def v' latest_entry_at_snoc_later)
    assume asc: "strictly_ascending (vTreasuryFundSettings p)"
    show "GetTreasuryFundSettings block_time p' nHeight
        = (if vTreasuryFundSettings p = [] then None
           else Some (snd (last (vTreasuryFundSettings p))))"
    proof (cases "vTreasuryFundSettings p = []")
      case True
      then show ?thesis unfolding same by (simp add: GetTreasuryFundSettings_def)
    next
      case False
      with older have "fst (last (vTreasuryFundSettings p)) \<le> time_from - 1"
        using last_in_set [OF False] by fastforce
      from latest_entry_at_last [OF asc False this] False before show ?thesis
        unfolding same by (simp add: GetTreasuryFundSettings_def)
    qed
  }
qed

theorem GetTreasuryFundSettings_latest_not_after_witness:
  "PushTreasuryFundSettings 1600 (sample_settings ''B'')
      ((sample_params ''main'')\<lparr>vTreasuryFundSettings := [(100, sample_settings ''A'')]\<rparr>)
     = (True, (sample_params ''main'')\<lparr>vTreasuryFundSettings :=
                 [(100, sample_settings ''A''), (1600, sample_settings ''B'')]\<rparr>)
   \<and> 1000 + 120 * (5::int) = 1600
   \<and> GetTreasuryFundSettings (\<lambda>h. 1000 + 120 * h)
        ((sample_params ''main'')\<lparr>vTreasuryFundSettings :=
            [(100, sample_settings ''A''), (1600, sample_settings ''B'')]\<rparr>) 5
       = Some (sample_settings ''B'')
   \<and> 999 + 120 * (5::int) = 1600 - 1
   \<and> strictly_ascending (vTreasuryFundSettings
        ((sample_params ''main'')\<lparr>vTreasuryFundSettings := [(100, sample_settings ''A'')]\<rparr>))
   \<and> GetTreasuryFundSettings (\<lambda>h. 999 + 120 * h)
        ((sample_params ''main'')\<lparr>vTreasuryFundSettings :=
            [(100, sample_settings ''A''), (1600, sample_settings ''B'')]\<rparr>) 5
       = Some (sample_settings ''A'')
   \<and> GetTreasuryFundSettings (\<lambda>h. 999 + 120 * h) (sample_params ''main'') 5 = None"
proof -
  let ?A = "sample_settings ''A''" and ?B = "sample_settings ''B''"
  let ?p0 = "sample_params ''main''"
  let ?p1 = "?p0\<lparr>vTreasuryFundSettings := [(100, ?A)]\<rparr>"
  let ?p2 = "?p0\<lparr>vTreasuryFundSettings := [(100, ?A), (1600, ?B)]\<rparr>"
  have push: "PushTreasuryFundSettings 1600 ?B ?p1 = (True, ?p2)"
    by (simp add: PushTreasuryFundSettings_def)
  have exact: "1000 + 120 * (5::int) = 1600" and before: "999 + 120 * (5::int) = 1600 - 1"
    by simp_all
  have asc: "strictly_ascending (vTreasuryFundSettings ?p1)"
    by (simp add: strictly_ascending_def)
  from GetTreasuryFundSettings_latest_not_after
    [of "\<lambda>h. 1000 + 120 * h" ?p1 5 1600 ?B ?p2] push exact
  have g1: "GetTreasuryFundSettings (\<lambda>h. 1000 + 120 * h) ?p2 5 = Some ?B"
    by blast
  have last1: "(if vTreasuryFundSettings ?p1 = [] then None
         else Some (snd (last (vTreasuryFundSettings ?p1)))) = Some ?A"
    by simp
  from GetTreasuryFundSettings_latest_not_after
    [of "\<lambda>h. 999 + 120 * h" ?p1 5 1600 ?B ?p2] push before asc
  have "GetTreasuryFundSettings (\<lambda>h. 999 + 120 * h) ?p2 5
      = (if vTreasuryFundSettings ?p1 = [] then None
         else Some (snd (last (vTreasuryFundSettings ?p1))))"
    by blast
  then have g2: "GetTreasuryFundSettings (\<lambda>h. 999 + 120 * h) ?p2 5 = Some ?A"
    by (simp only: last1)
  from GetTreasuryFundSettings_latest_not_after
    [of "\<lambda>h. 999 + 120 * h" ?p0 5 1600 ?B ?p2]
  have g3: "GetTreasuryFundSettings (\<lambda>h. 999 + 120 * h) ?p0 5 = None"
    by (simp add: sample_registry_empty)
  from push exact g1 before asc g2 g3 show ?thesis
    by (intro conjI)
qed

subsection \<open>Selecting the parameters\<close>

lemma SelectParams_supported:
  "networks chain = Some p \<Longrightarrow> SelectParams networks chain g = (Returned (), Some p)"
  by (simp add: SelectParams_def CreateChainParams_def)

text \<open>
  C6. \<^verbatim>\<open>SelectParams\<close> with a network name that is not supported throws
  \<^verbatim>\<open>std::runtime_error\<close> and leaves the global pointer as it was: \<^verbatim>\<open>Params()\<close> and
  \<^verbatim>\<open>pParams()\<close> give after the failed call what they gave before it.
\<close>

theorem SelectParams_unsupported_keeps_selection:
  assumes "networks chain = None"
  shows "SelectParams networks chain g = (Threw runtime_error, g)
       \<and> Params (snd (SelectParams networks chain g)) = Params g
       \<and> pParams (snd (SelectParams networks chain g)) = pParams g"
  using assms by (simp add: SelectParams_def CreateChainParams_def)

theorem SelectParams_unsupported_keeps_selection_witness:
  "sample_networks ''mainnet'' = None
   \<and> SelectParams sample_networks ''mainnet'' (Some (sample_params ''test''))
       = (Threw runtime_error, Some (sample_params ''test''))
   \<and> Params (snd (SelectParams sample_networks ''mainnet'' (Some (sample_params ''test''))))
       = Returned (sample_params ''test'')
   \<and> SelectParams sample_networks ''mainnet'' None = (Threw runtime_error, None)"
proof -
  have unknown: "sample_networks ''mainnet'' = None"
    by (simp add: sample_networks_def)
  from SelectParams_unsupported_keeps_selection
      [of sample_networks "''mainnet''" "Some (sample_params ''test'')"]
    SelectParams_unsupported_keeps_selection [of sample_networks "''mainnet''" None] unknown
  show ?thesis by (simp add: Params_def)
qed

end
